theory Spec2Isabelle
  imports Main "HOL-Library.Sublist" "HOL-Library.Word"
begin

unbundle bit_operations_syntax

section \<open>JavaScript values\<close>

text \<open>
  The plugin is TypeScript whose interesting inputs are typed \<open>any\<close>: thrown errors,
  server responses, host parameters. They are modelled by a small universe of JavaScript
  values. A number is an integer (the status codes, change types and error numbers the code
  handles); non-integral numbers, NaN and the infinities are not part of the model, and the
  decimal rendering below is JavaScript's for magnitudes under 10^21. An object carries the
  list of properties the code can read from it (own or inherited, first entry wins) and the
  text that converting it to a string yields (\<open>[object Object]\<close> for a plain object,
  \<open>Error: msg\<close> for an Error instance); objects whose getters or string conversion
  throw are outside the model. A function value carries its name only.
\<close>

datatype jsval =
    JUndefined
  | JNull
  | JBool bool
  | JNum int
  | JStr string
  | JFunc string
  | JObj "(string \<times> jsval) list" string

text \<open>Truthiness, as \<open>!x\<close>, \<open>x || y\<close>, \<open>x && y\<close>, \<open>x ? a : b\<close> and \<open>if (x)\<close> test it.\<close>

fun truthy :: "jsval \<Rightarrow> bool" where
  "truthy JUndefined = False"
| "truthy JNull = False"
| "truthy (JBool b) = b"
| "truthy (JNum n) = (n \<noteq> 0)"
| "truthy (JStr s) = (s \<noteq> [])"
| "truthy (JFunc f) = True"
| "truthy (JObj fs s) = True"

definition js_or :: "jsval \<Rightarrow> jsval \<Rightarrow> jsval" where
  "js_or a b = (if truthy a then a else b)"

definition digit_char :: "nat \<Rightarrow> char" where
  "digit_char d =
     (if d = 0 then CHR ''0'' else if d = 1 then CHR ''1'' else if d = 2 then CHR ''2''
      else if d = 3 then CHR ''3'' else if d = 4 then CHR ''4'' else if d = 5 then CHR ''5''
      else if d = 6 then CHR ''6'' else if d = 7 then CHR ''7'' else if d = 8 then CHR ''8''
      else CHR ''9'')"

function string_of_nat :: "nat \<Rightarrow> string" where
  "string_of_nat n =
     (if n < 10 then [digit_char n] else string_of_nat (n div 10) @ [digit_char (n mod 10)])"
  by pat_completeness auto
termination
  by (relation "measure id") auto

declare string_of_nat.simps [simp del]

definition string_of_int :: "int \<Rightarrow> string" where
  "string_of_int i = (if i < 0 then ''-'' @ string_of_nat (nat (- i)) else string_of_nat (nat i))"

text \<open>
  \<open>String(v)\<close>, a template literal's \<open>${v}\<close> and the conversion of \<open>v\<close> to a property
  key in \<open>table[v]\<close> all produce this text (Node prints a built-in function so).
\<close>

fun ToString :: "jsval \<Rightarrow> string" where
  "ToString JUndefined = ''undefined''"
| "ToString JNull = ''null''"
| "ToString (JBool b) = (if b then ''true'' else ''false'')"
| "ToString (JNum n) = string_of_int n"
| "ToString (JStr s) = s"
| "ToString (JFunc f) = ''function '' @ f @ ''() { [native code] }''"
| "ToString (JObj fs s) = s"

text \<open>\<open>v.name\<close> for a \<open>v\<close> that is neither null nor undefined.\<close>

fun get_prop :: "jsval \<Rightarrow> string \<Rightarrow> jsval" where
  "get_prop (JObj fs s) name = (case map_of fs name of Some v \<Rightarrow> v | None \<Rightarrow> JUndefined)"
| "get_prop v name = JUndefined"

text \<open>\<open>v?.name\<close>: undefined when \<open>v\<close> is null or undefined.\<close>

definition opt_chain :: "jsval \<Rightarrow> string \<Rightarrow> jsval" where
  "opt_chain v name = (if v = JUndefined \<or> v = JNull then JUndefined else get_prop v name)"

text \<open>
  \<open>v.name\<close> in general: reading a property of null or undefined throws a TypeError,
  whose message quotes the property's name (the character 0x27 is the single quote).
\<close>

definition TypeError :: "string \<Rightarrow> jsval" where
  "TypeError msg = JObj [(''message'', JStr msg)] (''TypeError: '' @ msg)"

definition member :: "jsval \<Rightarrow> string \<Rightarrow> jsval + jsval" where
  "member v name =
     (if v = JUndefined \<or> v = JNull
      then Inl (TypeError (''Cannot read properties of '' @ ToString v @ '' (reading ''
                           @ CHR 0x27 # name @ CHR 0x27 # '')''))
      else Inr (get_prop v name))"

text \<open>
  An object literal with numeric keys, as \<open>SMB_ERROR_CODES\<close> and \<open>eventMap\<close> are
  written: the keys are stored as their decimal strings, a lookup converts its key to a
  string, and a key that is not an own property is looked up in \<open>Object.prototype\<close>,
  which every object literal inherits from.
\<close>

definition Object_prototype :: "(string \<times> jsval) list" where
  "Object_prototype =
     [(''constructor'', JFunc ''Object''),
      (''__defineGetter__'', JFunc ''__defineGetter__''),
      (''__defineSetter__'', JFunc ''__defineSetter__''),
      (''hasOwnProperty'', JFunc ''hasOwnProperty''),
      (''__lookupGetter__'', JFunc ''__lookupGetter__''),
      (''__lookupSetter__'', JFunc ''__lookupSetter__''),
      (''isPrototypeOf'', JFunc ''isPrototypeOf''),
      (''propertyIsEnumerable'', JFunc ''propertyIsEnumerable''),
      (''toString'', JFunc ''toString''),
      (''valueOf'', JFunc ''valueOf''),
      (''__proto__'', JObj [] ''[object Object]''),
      (''toLocaleString'', JFunc ''toLocaleString'')]"

definition own_keys :: "(nat \<times> string) list \<Rightarrow> (string \<times> string) list" where
  "own_keys tbl = map (\<lambda>(c, s). (string_of_nat c, s)) tbl"

definition literal_get :: "(nat \<times> string) list \<Rightarrow> jsval \<Rightarrow> jsval" where
  "literal_get tbl k =
     (case map_of (own_keys tbl) (ToString k) of
        Some s \<Rightarrow> JStr s
      | None \<Rightarrow> (case map_of Object_prototype (ToString k) of
                   Some v \<Rightarrow> v
                 | None \<Rightarrow> JUndefined))"

section \<open>Readable errors (helpers.ts, Smb2.node.ts)\<close>

text \<open>
  \<open>SMB_ERROR_CODES\<close> and \<open>getReadableError\<close> are written twice in the repository, in
  \<open>nodes/Smb2/helpers.ts\<close> and in \<open>nodes/SMB2/Smb2.node.ts\<close>, with the same table and the
  same body (the second also writes the error to the debug log).
\<close>

definition SMB_ERROR_CODES :: "(nat \<times> string) list" where
  "SMB_ERROR_CODES =
     [(3221225525, ''Access Denied - Check your permissions for this file/folder''),
      (3221225506, ''File/Path Not Found''),
      (3221225514, ''Invalid Parameter''),
      (3221225485, ''Sharing Violation - File is in use by another process''),
      (3221225524, ''Object Name Invalid''),
      (3221225534, ''Not Enough Quota''),
      (3221225581, ''Logon Failure - Check your username, password, and domain''),
      (3221226036, ''Bad Network Name - The specified share does not exist on the server''),
      (2147942402, ''Network Name Not Found - Share does not exist''),
      (2147942405, ''Network Path Not Found''),
      (5, ''Access Denied''),
      (32, ''Sharing Violation''),
      (53, ''Network Path Not Found''),
      (67, ''Network Name Not Found''),
      (87, ''Invalid Parameter''),
      (1314, ''Network Error'')]"

text \<open>\<open>error.header?.status || error.code || error.errno\<close>\<close>

definition errorCode_of :: "jsval \<Rightarrow> jsval" where
  "errorCode_of error =
     js_or (js_or (opt_chain (get_prop error ''header'') ''status'') (get_prop error ''code''))
       (get_prop error ''errno'')"

definition getReadableError :: "jsval \<Rightarrow> jsval" where
  "getReadableError error =
     (if \<not> truthy error then JStr ''Unknown error occurred''
      else
        let errorCode = errorCode_of error in
        if truthy errorCode \<and> truthy (literal_get SMB_ERROR_CODES errorCode)
        then JStr (ToString (literal_get SMB_ERROR_CODES errorCode)
                   @ '' (Code: '' @ ToString errorCode @ '')'')
        else if get_prop error ''code'' = JStr ''ECONNREFUSED''
        then JStr ''Could not connect to SMB server - Connection refused''
        else if get_prop error ''code'' = JStr ''ETIMEDOUT''
        then JStr ''Connection to SMB server timed out''
        else if get_prop error ''code'' = JStr ''ENOTFOUND''
        then JStr ''SMB server not found - Check the server address''
        else if \<not> truthy (get_prop error ''message'')
                \<and> truthy (opt_chain (get_prop error ''header'') ''status'')
        then JStr (''SMB server returned an error (Code: ''
                   @ ToString (opt_chain (get_prop error ''header'') ''status'') @ '')'')
        else js_or (get_prop error ''message'') (JStr (ToString error)))"

text \<open>
  The status table of section 6 of the specification, as the specification words it: the
  ten codes it gives a meaning for.
\<close>

definition spec_status_meanings :: "(nat \<times> string) list" where
  "spec_status_meanings =
     [(3221225525, ''Access Denied''),
      (3221225506, ''File/Path Not Found''),
      (3221225514, ''Invalid Parameter''),
      (3221225485, ''Sharing Violation''),
      (3221225524, ''Object Name Invalid''),
      (3221225534, ''Not Enough Quota''),
      (3221225581, ''Logon Failure''),
      (3221226036, ''Bad Network Name''),
      (2147942402, ''Network Name Not Found''),
      (2147942405, ''Network Path Not Found'')]"

section \<open>The directory watch (Smb2Trigger.node.ts)\<close>

text \<open>The values the node offers for its \<open>event\<close> parameter when a folder is watched.\<close>

definition event_options :: "string list" where
  "event_options =
     [''fileCreated'', ''fileDeleted'', ''fileUpdated'', ''folderCreated'', ''folderDeleted'',
      ''folderUpdated'', ''watchFolderUpdated'']"

definition eventMap :: "(nat \<times> string) list" where
  "eventMap =
     [(1, ''fileCreated''),
      (2, ''fileDeleted''),
      (3, ''fileUpdated''),
      (4, ''folderCreated''),
      (5, ''folderDeleted''),
      (6, ''folderUpdated'')]"

text \<open>
  The callback \<open>trigger\<close> hands to \<open>tree.watchDirectory\<close>, run once for each response of
  the server. \<open>event\<close> is the node's \<open>event\<close> parameter; \<open>emitted\<close> lists what
  \<open>this.emit\<close> has been given so far, and the callback returns it extended or unchanged.
  Reading \<open>response.body.changeType\<close> throws when \<open>response\<close> or its body is missing.
\<close>

definition watch_callback :: "string \<Rightarrow> jsval \<Rightarrow> jsval list \<Rightarrow> jsval + jsval list" where
  "watch_callback event response emitted =
     (case member response ''body'' of
        Inl e \<Rightarrow> Inl e
      | Inr body \<Rightarrow>
          (case member body ''changeType'' of
             Inl e \<Rightarrow> Inl e
           | Inr changeType \<Rightarrow>
               if literal_get eventMap changeType = JStr event
               then Inr (emitted @ [body])
               else Inr emitted))"

text \<open>
  What \<open>this.emit\<close> has been given once the callback is done, whether it returned or
  threw.
\<close>

definition emitted_after :: "jsval + jsval list \<Rightarrow> jsval list \<Rightarrow> jsval list" where
  "emitted_after r emitted = (case r of Inl e \<Rightarrow> emitted | Inr emitted' \<Rightarrow> emitted')"

text \<open>The callback run on the responses of the server, one after the other.\<close>

fun deliver :: "string \<Rightarrow> jsval list \<Rightarrow> jsval list \<Rightarrow> jsval list" where
  "deliver event [] emitted = emitted"
| "deliver event (response # rest) emitted =
     deliver event rest (emitted_after (watch_callback event response emitted) emitted)"

section \<open>Rename by handle (helpers.ts)\<close>

text \<open>
  \<open>FilePipePrinterAccess\<close> is an enumeration of the SMB2 client library, which is not part
  of the repository: \<open>renameFile\<close> takes its five members as a parameter.
  \<open>protocol_access\<close> gives them the values of the SMB2 protocol's access mask; the source's
  comments state two of them (Delete 65536, WriteAttributes 256).
\<close>

record FilePipePrinterAccess =
  Delete :: "32 word"
  WriteAttributes :: "32 word"
  ReadAttributes :: "32 word"
  ReadControl :: "32 word"
  Synchronize :: "32 word"

definition protocol_access :: FilePipePrinterAccess where
  "protocol_access =
     \<lparr>Delete = 0x10000, WriteAttributes = 0x100, ReadAttributes = 0x80,
      ReadControl = 0x20000, Synchronize = 0x100000\<rparr>"

definition desiredAccess :: "FilePipePrinterAccess \<Rightarrow> 32 word" where
  "desiredAccess A =
     Delete A OR WriteAttributes A OR ReadAttributes A OR ReadControl A OR Synchronize A"

text \<open>
  What \<open>renameFile\<close> asks of the library's \<open>File\<close>, in order. The library answers each
  asynchronous request by resolving (\<open>None\<close>) or by rejecting with an error; its answer may
  depend on everything requested before.
\<close>

datatype file_call = RegisterFile | Open string "32 word" | Rename string | Close

type_synonym file_world = "file_call list \<Rightarrow> file_call \<Rightarrow> jsval option"

definition renameFile ::
  "FilePipePrinterAccess \<Rightarrow> file_world \<Rightarrow> string \<Rightarrow> string \<Rightarrow> jsval option \<times> file_call list"
where
  "renameFile A w path newPath =
     (let t1 = [RegisterFile];
          t2 = t1 @ [Open path (desiredAccess A)]
      in case w t1 (Open path (desiredAccess A)) of
           Some e \<Rightarrow> (Some e, t2)
         | None \<Rightarrow>
             (let t3 = t2 @ [Rename newPath]
              in case w t2 (Rename newPath) of
                   Some e \<Rightarrow> (Some e, t3)
                 | None \<Rightarrow> (w t3 Close, t3 @ [Close])))"

section \<open>The file operations node (Smb2.node.ts)\<close>

text \<open>
  The repository holds the node twice. \<open>nodes/SMB2/Smb2.node.ts\<close>, modelled here, connects
  inside \<open>execute\<close>; the other file connects through \<open>connectToSmbServer\<close> of helpers.ts
  and has the same loop over the items and the same \<open>formatEntry\<close>.
\<close>

subsection \<open>Formatting a directory entry\<close>

text \<open>
  A \<open>DirectoryEntry\<close> of the client library, with the fields \<open>formatEntry\<close> reads.
  A formatted time is the value \<open>new Date\<close> was built from, or \<open>None\<close> for undefined.
  \<open>basename\<close> and \<open>join\<close> are Node's \<open>path\<close> functions, taken as parameters.
\<close>

record DirectoryEntry =
  type :: string
  filename :: string
  fileAttributes :: jsval
  creationTime :: jsval
  lastAccessTime :: jsval
  lastWriteTime :: jsval
  changeTime :: jsval
  fileSize :: jsval

record FormattedEntry =
  type :: string
  name :: string
  path :: string
  attributes :: jsval
  createTime :: "jsval option"
  accessTime :: "jsval option"
  modifyTime :: "jsval option"
  changeTime :: "jsval option"
  size :: jsval

record node_path =
  basename :: "string \<Rightarrow> string"
  join :: "string \<Rightarrow> string \<Rightarrow> string"

definition new_Date_if :: "jsval \<Rightarrow> jsval option" where
  "new_Date_if t = (if truthy t then Some t else None)"

definition formatEntry :: "node_path \<Rightarrow> DirectoryEntry \<Rightarrow> string \<Rightarrow> FormattedEntry" where
  "formatEntry np entry p =
     \<lparr>type = (if DirectoryEntry.type entry = ''Directory'' then ''d'' else ''l''),
      name = basename np (filename entry),
      path = join np p (filename entry),
      attributes = fileAttributes entry,
      createTime = new_Date_if (creationTime entry),
      accessTime = new_Date_if (lastAccessTime entry),
      modifyTime = new_Date_if (lastWriteTime entry),
      changeTime = new_Date_if (DirectoryEntry.changeTime entry),
      size = fileSize entry\<rparr>"

subsection \<open>Host data and the outside world\<close>

text \<open>
  The errors of the host's library, with the properties the node sets on them: the message,
  the description and the index of the item (\<open>context.itemIndex\<close>); a NodeApiError keeps the
  error it wraps.
\<close>

definition NodeOperationError :: "string \<Rightarrow> string option \<Rightarrow> nat option \<Rightarrow> jsval" where
  "NodeOperationError message description itemIndex =
     JObj [(''name'', JStr ''NodeOperationError''),
           (''message'', JStr message),
           (''description'', case description of None \<Rightarrow> JUndefined | Some d \<Rightarrow> JStr d),
           (''context'',
              JObj [(''itemIndex'', case itemIndex of None \<Rightarrow> JUndefined | Some i \<Rightarrow> JNum (int i))]
                ''[object Object]'')]
       (''NodeOperationError: '' @ message)"

definition NodeApiError :: "jsval \<Rightarrow> string \<Rightarrow> jsval" where
  "NodeApiError error message =
     JObj [(''name'', JStr ''NodeApiError''), (''message'', JStr message), (''cause'', error)]
       (''NodeApiError: '' @ message)"

record Credentials =
  host :: string
  domain :: string
  username :: string
  password :: string
  share :: string

record INodeExecutionData =
  json :: "(string \<times> jsval) list"
  binary :: "(string \<times> jsval) list option"
  pairedItem :: "nat option"

datatype out_item = Entry FormattedEntry | Item INodeExecutionData

text \<open>\<open>obj[k] = v\<close> on an object kept as a property list.\<close>

fun assign :: "string \<Rightarrow> jsval \<Rightarrow> (string \<times> jsval) list \<Rightarrow> (string \<times> jsval) list" where
  "assign k v [] = [(k, v)]"
| "assign k v ((k', v') # ps) = (if k = k' then (k, v) # ps else (k', v') # assign k v ps)"

text \<open>\<open>items[i].json.error = msg\<close>\<close>

definition set_error :: "INodeExecutionData \<Rightarrow> string \<Rightarrow> INodeExecutionData" where
  "set_error item msg = item\<lparr>json := assign ''error'' (JStr msg) (json item)\<rparr>"

text \<open>
  What the host gives \<open>execute\<close>: the input items, \<open>continueOnFail()\<close>, the credentials
  (or the error \<open>getCredentials\<close> throws) and the node's parameters, each resolved for an
  item index and typed as the source casts it.
\<close>

record ctx =
  getInputData :: "INodeExecutionData list"
  continueOnFail :: bool
  getCredentials :: "jsval + Credentials"
  operation :: string
  p_path :: "nat \<Rightarrow> string"
  p_binaryPropertyName :: "nat \<Rightarrow> string"
  p_binaryData :: "nat \<Rightarrow> bool"
  p_fileContent :: "nat \<Rightarrow> string"
  p_options :: "nat \<Rightarrow> jsval"
  p_oldPath :: "nat \<Rightarrow> string"
  p_newPath :: "nat \<Rightarrow> string"

text \<open>
  Every awaited call that leaves the node: on the SMB client, session and tree, on the
  temporary file and on the host's binary-data helpers. The world answers a call with the
  value it resolves to (\<open>Inr\<close>) or the error it rejects with (\<open>Inl\<close>), and its answer may
  depend on all the calls made before. \<open>listing\<close> holds the entries a successful
  \<open>readDirectory\<close> resolves to.
\<close>

datatype call =
    Authenticate string string string
  | ConnectTree string
  | ReadDirectory string
  | TmpFile
  | CreateFileReadStream string
  | Pipeline jsval jsval
  | CopyBinaryFile jsval string
  | Cleanup
  | GetBinaryDataBuffer nat string
  | Exists string
  | RemoveFile string
  | CreateFile string jsval
  | RemoveDirectory string
  | RenameFile string string
  | ClientClose

record world =
  respond :: "call list \<Rightarrow> call \<Rightarrow> jsval + jsval"
  listing :: "call list \<Rightarrow> string \<Rightarrow> DirectoryEntry list"
  node_path :: node_path

text \<open>The state \<open>execute\<close> leaves behind: the calls made, and what went to the debug log.\<close>

record state =
  calls :: "call list"
  logs :: "(string \<times> jsval) list"

definition perform :: "world \<Rightarrow> call \<Rightarrow> state \<Rightarrow> (jsval + jsval) \<times> state" where
  "perform w c s = (respond w (calls s) c, s\<lparr>calls := calls s @ [c]\<rparr>)"

definition debug :: "string \<Rightarrow> jsval \<Rightarrow> state \<Rightarrow> state" where
  "debug label v s = s\<lparr>logs := logs s @ [(label, v)]\<rparr>"

text \<open>
  \<open>getReadableError\<close> as Smb2.node.ts has it: a truthy error is logged first, with no
  label.
\<close>

definition getReadableError_logged :: "jsval \<Rightarrow> state \<Rightarrow> jsval \<times> state" where
  "getReadableError_logged error s =
     (getReadableError error, if truthy error then debug [] error s else s)"

type_synonym progress = "(jsval + out_item list) \<times> state"

subsection \<open>One item\<close>

text \<open>
  The catch block that download, upload, delete and rename each have, with its two texts
  (\<open>label\<close> is \<open>Download error:\<close>, \<open>what\<close> is \<open>download\<close>, and so on): under
  continue-on-fail the item gets the message and is pushed, otherwise a NodeOperationError
  with the item's index is thrown.
\<close>

definition item_catch ::
  "string \<Rightarrow> string \<Rightarrow> ctx \<Rightarrow> nat \<Rightarrow> INodeExecutionData \<Rightarrow> jsval \<Rightarrow> out_item list \<Rightarrow> state \<Rightarrow> progress"
where
  "item_catch label what c i item error returnItems s =
     (let (readableError, s') = getReadableError_logged error (debug label error s);
          msg = ''Failed to '' @ what @ '' file: '' @ ToString readableError
      in if continueOnFail c
         then (Inr (returnItems @ [Item (set_error item msg)]), s')
         else (Inl (NodeOperationError msg
                      (Some ''Check your SMB connection settings and file permissions'') (Some i)),
               s'))"

text \<open>list: no try block; an error of \<open>readDirectory\<close> leaves the loop.\<close>

definition list_item :: "world \<Rightarrow> ctx \<Rightarrow> nat \<Rightarrow> out_item list \<Rightarrow> state \<Rightarrow> progress" where
  "list_item w c i returnItems s =
     (case perform w (ReadDirectory (p_path c i)) s of
        (Inl e, s1) \<Rightarrow> (Inl e, s1)
      | (Inr r, s1) \<Rightarrow>
          (Inr (returnItems
                @ map (\<lambda>entry. Entry (formatEntry (node_path w) entry (p_path c i)))
                    (listing w (calls s) (p_path c i))),
           s1))"

text \<open>download: the finally block removes the temporary file and only logs a failure.\<close>

definition download_finally :: "world \<Rightarrow> jsval \<Rightarrow> progress \<Rightarrow> progress" where
  "download_finally w binaryFile p =
     (if truthy (opt_chain binaryFile ''cleanup'')
      then (case perform w Cleanup (snd p) of
              (Inl cleanupError, s') \<Rightarrow> (fst p, debug ''Error during cleanup:'' cleanupError s')
            | (Inr r, s') \<Rightarrow> (fst p, s'))
      else p)"

definition download_item ::
  "world \<Rightarrow> ctx \<Rightarrow> nat \<Rightarrow> INodeExecutionData \<Rightarrow> out_item list \<Rightarrow> state \<Rightarrow> progress"
where
  "download_item w c i item returnItems s =
     (let catch = item_catch ''Download error:'' ''download'' c i item in
      case perform w TmpFile s of
        (Inl e, s1) \<Rightarrow> download_finally w JUndefined (catch e returnItems s1)
      | (Inr binaryFile, s1) \<Rightarrow>
          download_finally w binaryFile
            (if \<not> truthy binaryFile \<or> \<not> truthy (get_prop binaryFile ''path'')
             then catch (NodeOperationError ''Failed to create temporary file'' None None)
                    returnItems s1
             else
               case perform w (CreateFileReadStream (p_path c i)) s1 of
                 (Inl e, s2) \<Rightarrow> catch e returnItems s2
               | (Inr source, s2) \<Rightarrow>
                   (case perform w (Pipeline source (get_prop binaryFile ''path'')) s2 of
                      (Inl e, s3) \<Rightarrow> catch e returnItems s3
                    | (Inr r, s3) \<Rightarrow>
                        (case perform w
                                (CopyBinaryFile (get_prop binaryFile ''path'')
                                   (basename (node_path w) (p_path c i))) s3 of
                           (Inl e, s4) \<Rightarrow> catch e returnItems s4
                         | (Inr data, s4) \<Rightarrow>
                             (Inr (returnItems
                                   @ [Item (item\<lparr>binary :=
                                              Some (assign (p_binaryPropertyName c i) data
                                                      (case binary item of None \<Rightarrow> [] | Some b \<Rightarrow> b)),
                                            pairedItem := Some i\<rparr>)]),
                              s4)))))"

text \<open>upload: the content first, then the optional replacement, then \<open>createFile\<close>.\<close>

definition upload_create ::
  "world \<Rightarrow> ctx \<Rightarrow> nat \<Rightarrow> INodeExecutionData \<Rightarrow> jsval \<Rightarrow> out_item list \<Rightarrow> state \<Rightarrow> progress"
where
  "upload_create w c i item content returnItems s =
     (case perform w (CreateFile (p_path c i) content) s of
        (Inl e, s1) \<Rightarrow> item_catch ''Upload error:'' ''upload'' c i item e returnItems s1
      | (Inr r, s1) \<Rightarrow> (Inr (returnItems @ [Item item]), s1))"

definition upload_content ::
  "world \<Rightarrow> ctx \<Rightarrow> nat \<Rightarrow> INodeExecutionData \<Rightarrow> jsval \<Rightarrow> out_item list \<Rightarrow> state \<Rightarrow> progress"
where
  "upload_content w c i item content returnItems s =
     (let catch = item_catch ''Upload error:'' ''upload'' c i item in
      case member (p_options c i) ''replace'' of
        Inl e \<Rightarrow> catch e returnItems s
      | Inr replace \<Rightarrow>
          if replace = JBool True
          then (case perform w (Exists (p_path c i)) s of
                  (Inl e, s1) \<Rightarrow> catch e returnItems s1
                | (Inr exists, s1) \<Rightarrow>
                    if truthy exists
                    then (case perform w (RemoveFile (p_path c i)) s1 of
                            (Inl e, s2) \<Rightarrow> catch e returnItems s2
                          | (Inr r, s2) \<Rightarrow> upload_create w c i item content returnItems s2)
                    else upload_create w c i item content returnItems s1)
          else upload_create w c i item content returnItems s)"

definition upload_item ::
  "world \<Rightarrow> ctx \<Rightarrow> nat \<Rightarrow> INodeExecutionData \<Rightarrow> out_item list \<Rightarrow> state \<Rightarrow> progress"
where
  "upload_item w c i item returnItems s =
     (let catch = item_catch ''Upload error:'' ''upload'' c i item in
      if p_binaryData c i
      then (case perform w (GetBinaryDataBuffer i (p_binaryPropertyName c i)) s of
              (Inl e, s1) \<Rightarrow> catch e returnItems s1
            | (Inr binaryDataBuffer, s1) \<Rightarrow>
                if \<not> truthy binaryDataBuffer
                then (if continueOnFail c
                      then (Inr (returnItems
                                 @ [Item (set_error item
                                            (''Binary data not found for key ''
                                             @ p_binaryPropertyName c i))]),
                            s1)
                      else catch (NodeOperationError
                                    (''Binary data not found for key '' @ p_binaryPropertyName c i)
                                    None None)
                             returnItems s1)
                else upload_content w c i item binaryDataBuffer returnItems s1)
      else if p_fileContent c i = []
           then (if continueOnFail c
                 then (Inr (returnItems @ [Item (set_error item ''File content not found'')]), s)
                 else catch (NodeOperationError ''File content not found'' None None)
                        returnItems s)
           else upload_content w c i item (JStr (p_fileContent c i)) returnItems s)"

definition delete_item ::
  "world \<Rightarrow> ctx \<Rightarrow> nat \<Rightarrow> INodeExecutionData \<Rightarrow> out_item list \<Rightarrow> state \<Rightarrow> progress"
where
  "delete_item w c i item returnItems s =
     (let catch = item_catch ''Delete error:'' ''delete'' c i item in
      case member (p_options c i) ''folder'' of
        Inl e \<Rightarrow> catch e returnItems s
      | Inr folder \<Rightarrow>
          (case perform w (if truthy folder then RemoveDirectory (p_path c i)
                           else RemoveFile (p_path c i)) s of
             (Inl e, s1) \<Rightarrow> catch e returnItems s1
           | (Inr r, s1) \<Rightarrow> (Inr (returnItems @ [Item item]), s1)))"

definition rename_item ::
  "world \<Rightarrow> ctx \<Rightarrow> nat \<Rightarrow> INodeExecutionData \<Rightarrow> out_item list \<Rightarrow> state \<Rightarrow> progress"
where
  "rename_item w c i item returnItems s =
     (case perform w (RenameFile (p_oldPath c i) (p_newPath c i)) s of
        (Inl e, s1) \<Rightarrow> item_catch ''Rename error:'' ''rename'' c i item e returnItems s1
      | (Inr r, s1) \<Rightarrow> (Inr (returnItems @ [Item item]), s1))"

subsection \<open>The loop and its frame\<close>

definition loop_body ::
  "world \<Rightarrow> ctx \<Rightarrow> nat \<Rightarrow> INodeExecutionData \<Rightarrow> out_item list \<Rightarrow> state \<Rightarrow> progress"
where
  "loop_body w c i item returnItems s =
     (if operation c = ''list'' then list_item w c i returnItems s
      else if operation c = ''download'' then download_item w c i item returnItems s
      else if operation c = ''upload'' then upload_item w c i item returnItems s
      else if operation c = ''delete'' then delete_item w c i item returnItems s
      else if operation c = ''rename'' then rename_item w c i item returnItems s
      else (Inr returnItems, s))"

text \<open>
  \<open>for (let i = 0; i < items.length; i++)\<close>: the list holds \<open>items[i]\<close>, \<open>items[i+1]\<close>, ...;
  an iteration reads and writes its own item only.
\<close>

fun loop ::
  "world \<Rightarrow> ctx \<Rightarrow> nat \<Rightarrow> INodeExecutionData list \<Rightarrow> out_item list \<Rightarrow> state \<Rightarrow> progress"
where
  "loop w c i [] returnItems s = (Inr returnItems, s)"
| "loop w c i (item # rest) returnItems s =
     (case loop_body w c i item returnItems s of
        (Inl e, s') \<Rightarrow> (Inl e, s')
      | (Inr returnItems', s') \<Rightarrow> loop w c (Suc i) rest returnItems' s')"

text \<open>
  The inner try block: the second component tells whether \<open>client\<close> has been assigned
  when the block is left.
\<close>

definition connect :: "world \<Rightarrow> ctx \<Rightarrow> state \<Rightarrow> (jsval + jsval) \<times> bool \<times> state" where
  "connect w c s =
     (case getCredentials c of
        Inl e \<Rightarrow> (Inl e, False, s)
      | Inr credentials \<Rightarrow>
          (case perform w (Authenticate (domain credentials) (username credentials)
                             (password credentials)) s of
             (Inl e, s1) \<Rightarrow> (Inl e, True, s1)
           | (Inr session, s1) \<Rightarrow>
               (case perform w (ConnectTree (share credentials)) s1 of
                  (Inl e, s2) \<Rightarrow> (Inl e, True, s2)
                | (Inr tree, s2) \<Rightarrow> (Inr tree, True, s2))))"

text \<open>The outer catch block: \<open>if (client) await client.close(); throw error\<close>.\<close>

definition outer_catch :: "world \<Rightarrow> bool \<Rightarrow> jsval \<Rightarrow> state \<Rightarrow> progress" where
  "outer_catch w client error s =
     (if client
      then (case perform w ClientClose s of
              (Inl e, s') \<Rightarrow> (Inl e, s')
            | (Inr r, s') \<Rightarrow> (Inl error, s'))
      else (Inl error, s))"

definition execute :: "world \<Rightarrow> ctx \<Rightarrow> progress" where
  "execute w c =
     (case connect w c \<lparr>calls = [], logs = []\<rparr> of
        (Inl error, client, s1) \<Rightarrow>
          (let (readableError, s2) = getReadableError_logged error (debug ''Connect error: '' error s1);
               msg = ''Failed to connect to SMB server: '' @ ToString readableError
           in if continueOnFail c
              then (Inr [Item \<lparr>json = [(''error'', JStr msg)], binary = None, pairedItem = None\<rparr>], s2)
              else outer_catch w client (NodeApiError error msg) s2)
      | (Inr tree, client, s1) \<Rightarrow>
          (case loop w c 0 (getInputData c) [] s1 of
             (Inl error, s2) \<Rightarrow> outer_catch w client error s2
           | (Inr returnItems, s2) \<Rightarrow>
               (case perform w ClientClose s2 of
                  (Inl error, s3) \<Rightarrow> outer_catch w client error s3
                | (Inr r, s3) \<Rightarrow> (Inr returnItems, s3))))"

subsection \<open>The overwrite sequence\<close>

text \<open>
  The calls the overwrite option of an upload is described to make, written on their own to
  be compared with \<open>upload_item\<close> below: \<open>exists\<close>, then \<open>removeFile\<close> only when
  \<open>exists\<close> returned true, then \<open>createFile\<close>; a step is made only when the one before
  it did not fail, and \<open>createFile\<close> stands alone when the option is not set. \<open>h\<close> is
  the history of calls before the sequence starts.
\<close>

definition overwrite_sequence :: "world \<Rightarrow> call list \<Rightarrow> string \<Rightarrow> jsval \<Rightarrow> jsval \<Rightarrow> call list" where
  "overwrite_sequence w h p content replace =
     (if replace = JBool True
      then Exists p
           # (case respond w h (Exists p) of
                Inl e \<Rightarrow> []
              | Inr exists \<Rightarrow>
                  if truthy exists
                  then RemoveFile p
                       # (case respond w (h @ [Exists p]) (RemoveFile p) of
                            Inl e \<Rightarrow> []
                          | Inr r \<Rightarrow> [CreateFile p content])
                  else [CreateFile p content])
      else [CreateFile p content])"

subsection \<open>Sample worlds\<close>

text \<open>Concrete hosts and servers, on which the theorems below are run.\<close>

definition plain_path :: node_path where
  "plain_path = \<lparr>basename = (\<lambda>f. f), join = (\<lambda>d f. d @ ''/'' @ f)\<rparr>"

definition two_entries :: "DirectoryEntry list" where
  "two_entries =
     [\<lparr>DirectoryEntry.type = ''File'', filename = ''a.txt'', fileAttributes = JNum 32,
       creationTime = JNum 1, lastAccessTime = JNum 2, lastWriteTime = JNum 3,
       DirectoryEntry.changeTime = JNum 4, fileSize = JNum 10\<rparr>,
      \<lparr>DirectoryEntry.type = ''Directory'', filename = ''sub'', fileAttributes = JNum 16,
       creationTime = JNum 0, lastAccessTime = JNum 2, lastWriteTime = JNum 3,
       DirectoryEntry.changeTime = JNum 4, fileSize = JNum 0\<rparr>]"

text \<open>A server on which every call succeeds.\<close>

definition quiet_world :: world where
  "quiet_world =
     \<lparr>respond = (\<lambda>h c. Inr JUndefined), listing = (\<lambda>h p. two_entries), node_path = plain_path\<rparr>"

definition no_params :: ctx where
  "no_params =
     \<lparr>getInputData = [], continueOnFail = False,
      getCredentials = Inr \<lparr>host = ''nas'', domain = ''WORKGROUP'', username = ''u'',
                             password = ''p'', share = ''public''\<rparr>,
      operation = ''list'', p_path = (\<lambda>i. ''docs''), p_binaryPropertyName = (\<lambda>i. ''data''),
      p_binaryData = (\<lambda>i. False), p_fileContent = (\<lambda>i. []),
      p_options = (\<lambda>i. JObj [] ''[object Object]''), p_oldPath = (\<lambda>i. ''old''),
      p_newPath = (\<lambda>i. ''new'')\<rparr>"

definition item0 :: INodeExecutionData where
  "item0 = \<lparr>json = [(''id'', JNum 1)], binary = None, pairedItem = None\<rparr>"

definition item1 :: INodeExecutionData where
  "item1 = \<lparr>json = [(''id'', JNum 2)], binary = None, pairedItem = None\<rparr>"

text \<open>
  A server on which the file to upload is already there, and a host that holds a binary
  buffer for every item.
\<close>

definition five_bytes :: jsval where
  "five_bytes = JObj [(''length'', JNum 5)] ''hello''"

definition existing_world :: world where
  "existing_world =
     quiet_world\<lparr>respond :=
       (\<lambda>h c. case c of
                 Exists p \<Rightarrow> Inr (JBool True)
               | GetBinaryDataBuffer i k \<Rightarrow> Inr five_bytes
               | _ \<Rightarrow> Inr JUndefined)\<rparr>"

definition upload_params :: "string \<Rightarrow> jsval \<Rightarrow> bool \<Rightarrow> ctx" where
  "upload_params content opts cof =
     no_params\<lparr>getInputData := [item0], continueOnFail := cof, operation := ''upload'',
               p_path := (\<lambda>i. ''docs/a.txt''), p_fileContent := (\<lambda>i. content),
               p_options := (\<lambda>i. opts)\<rparr>"

definition binary_upload_params :: "jsval \<Rightarrow> ctx" where
  "binary_upload_params opts = (upload_params [] opts False)\<lparr>p_binaryData := (\<lambda>i. True)\<rparr>"


text \<open>
  A server that accepts the connection and rejects every operation on the share with
  STATUS_ACCESS_DENIED; \<open>close\<close> is how it answers \<open>client.close()\<close>.
\<close>

definition access_denied :: jsval where
  "access_denied =
     JObj [(''header'', JObj [(''status'', JNum 3221225525)] ''[object Object]''),
           (''message'', JStr ''STATUS_ACCESS_DENIED'')]
       ''Error: STATUS_ACCESS_DENIED''"

definition connection_reset :: jsval where
  "connection_reset =
     JObj [(''code'', JStr ''ECONNRESET''), (''message'', JStr ''read ECONNRESET'')]
       ''Error: read ECONNRESET''"

definition denying_world :: "jsval + jsval \<Rightarrow> world" where
  "denying_world close =
     quiet_world\<lparr>respond :=
       (\<lambda>h c. case c of
                 Authenticate d u p \<Rightarrow> Inr JUndefined
               | ConnectTree s \<Rightarrow> Inr JUndefined
               | ClientClose \<Rightarrow> close
               | _ \<Rightarrow> Inl access_denied)\<rparr>"

definition batch_params :: "string \<Rightarrow> bool \<Rightarrow> ctx" where
  "batch_params op cof =
     no_params\<lparr>getInputData := [item0, item1], continueOnFail := cof, operation := op\<rparr>"

text \<open>
  A server on which a download fails while the file is copied, and the temporary file
  cannot be removed afterwards.
\<close>

definition disk_full :: jsval where
  "disk_full = JObj [(''code'', JStr ''ENOSPC''), (''message'', JStr ''no space left on device'')]
                 ''Error: no space left on device''"

definition busy :: jsval where
  "busy = JObj [(''code'', JStr ''EBUSY''), (''message'', JStr ''resource busy'')]
            ''Error: resource busy''"

definition tmp_file :: jsval where
  "tmp_file = JObj [(''path'', JStr ''/tmp/n8n-smb2-1''), (''cleanup'', JFunc ''cleanup'')]
                ''[object Object]''"

definition stuck_tmp_world :: world where
  "stuck_tmp_world =
     quiet_world\<lparr>respond :=
       (\<lambda>h c. case c of
                 TmpFile \<Rightarrow> Inr tmp_file
               | Pipeline src dst \<Rightarrow> Inl disk_full
               | Cleanup \<Rightarrow> Inl busy
               | _ \<Rightarrow> Inr JUndefined)\<rparr>"

section \<open>Decimal rendering and lookups in object literals\<close>

lemma digit_char_inj: "a < 10 \<Longrightarrow> b < 10 \<Longrightarrow> digit_char a = digit_char b \<Longrightarrow> a = b"
  unfolding digit_char_def by (simp split: if_splits) arith

lemma digit_char_digit: "digit_char d \<in> set ''0123456789''"
  unfolding digit_char_def by simp

lemma string_of_nat_nonempty: "string_of_nat n \<noteq> []"
  by (subst string_of_nat.simps) simp

lemma string_of_nat_small: "n < 10 \<Longrightarrow> string_of_nat n = [digit_char n]"
  by (subst string_of_nat.simps) simp

lemma string_of_nat_large:
  "\<not> n < 10 \<Longrightarrow> string_of_nat n = string_of_nat (n div 10) @ [digit_char (n mod 10)]"
  by (subst string_of_nat.simps) simp

lemma length_string_of_nat: "length (string_of_nat n) = Suc 0 \<longleftrightarrow> n < 10"
  by (cases "n < 10") (simp_all add: string_of_nat_small string_of_nat_large string_of_nat_nonempty)

lemma string_of_nat_inj: "string_of_nat m = string_of_nat n \<Longrightarrow> m = n"
proof (induction m arbitrary: n rule: string_of_nat.induct)
  case (1 m)
  show ?case
  proof (cases "m < 10")
    case True
    then have "length (string_of_nat n) = Suc 0"
      using "1.prems" length_string_of_nat[of m] by simp
    then have "n < 10" using length_string_of_nat[of n] by simp
    with True "1.prems" show ?thesis
      by (simp add: string_of_nat_small digit_char_inj)
  next
    case False
    then have "length (string_of_nat n) \<noteq> Suc 0"
      using "1.prems" length_string_of_nat[of m] by simp
    then have n: "\<not> n < 10" using length_string_of_nat[of n] by simp
    from "1.prems" False n have
      "string_of_nat (m div 10) = string_of_nat (n div 10)"
      "digit_char (m mod 10) = digit_char (n mod 10)"
      by (simp_all add: string_of_nat_large)
    then have "m div 10 = n div 10" "m mod 10 = n mod 10"
      using "1.IH"[OF False] digit_char_inj[of "m mod 10" "n mod 10"] by simp_all
    then have "10 * (m div 10) + m mod 10 = 10 * (n div 10) + n mod 10" by simp
    then show ?thesis by (simp only: mult_div_mod_eq)
  qed
qed


lemma hd_string_of_nat: "hd (string_of_nat n) \<in> set ''0123456789''"
proof (induction n rule: string_of_nat.induct)
  case (1 n)
  show ?case
  proof (cases "n < 10")
    case True
    then show ?thesis using digit_char_digit[of n] by (simp only: string_of_nat_small list.sel)
  next
    case False
    then have "hd (string_of_nat n) = hd (string_of_nat (n div 10))"
      by (simp add: string_of_nat_large string_of_nat_nonempty)
    then show ?thesis
      using "1.IH"[OF False] by simp
  qed
qed

lemma hd_string_of_int: "hd (string_of_int i) \<in> set ''-0123456789''"
  using hd_string_of_nat[of "nat i"] by (simp add: string_of_int_def)

lemma prototype_keys:
  "map_of Object_prototype k = Some v \<Longrightarrow> hd k \<in> set ''c_hiptv''"
  by (simp add: Object_prototype_def split: if_splits)

lemma prototype_miss:
  assumes "hd k \<in> set ''-0123456789''"
  shows "map_of Object_prototype k = None"
proof (cases "map_of Object_prototype k")
  case None
  then show ?thesis .
next
  case (Some v)
  then have "hd k \<in> set ''c_hiptv''" by (rule prototype_keys)
  with assms show ?thesis by auto
qed

lemma map_of_own_keys: "map_of (own_keys tbl) (string_of_nat n) = map_of tbl n"
proof (induction tbl)
  case Nil
  then show ?case by (simp add: own_keys_def)
next
  case (Cons p tbl)
  obtain k v where p: "p = (k, v)" by (cases p)
  have "string_of_nat n = string_of_nat k \<longleftrightarrow> n = k"
    using string_of_nat_inj[of n k] by blast
  with Cons p show ?case by (simp add: own_keys_def)
qed

lemma own_keys_negative:
  assumes "i < 0"
  shows "map_of (own_keys tbl) (string_of_int i) = None"
proof -
  have "hd (string_of_int i) = CHR ''-''" using assms by (simp add: string_of_int_def)
  moreover have "hd (string_of_nat k) \<noteq> CHR ''-''" for k
    using hd_string_of_nat[of k] by auto
  ultimately have neq: "string_of_int i \<noteq> string_of_nat k" for k by metis
  have "fst ` set (own_keys tbl) \<subseteq> range string_of_nat"
    by (auto simp: own_keys_def)
  with neq have "string_of_int i \<notin> fst ` set (own_keys tbl)"
    by blast
  then show ?thesis by (simp add: map_of_eq_None_iff)
qed

lemma literal_get_JNum:
  "literal_get tbl (JNum i) =
     (if i < 0 then JUndefined
      else case map_of tbl (nat i) of Some s \<Rightarrow> JStr s | None \<Rightarrow> JUndefined)"
proof (cases "i < 0")
  case True
  then show ?thesis
    using prototype_miss[OF hd_string_of_int, of i]
    by (simp add: literal_get_def own_keys_negative)
next
  case False
  then have "string_of_int i = string_of_nat (nat i)" by (simp add: string_of_int_def)
  with False show ?thesis
    using prototype_miss[OF hd_string_of_int, of i]
    by (simp add: literal_get_def map_of_own_keys split: option.split)
qed

lemma prototype_not_string: "map_of Object_prototype k \<noteq> Some (JStr s)"
  by (simp add: Object_prototype_def)

lemma literal_get_JStr:
  assumes "literal_get tbl k = JStr s"
  shows "s \<in> snd ` set tbl"
proof (cases "map_of (own_keys tbl) (ToString k)")
  case None
  with assms prototype_not_string[of "ToString k" s] show ?thesis
    by (simp add: literal_get_def split: option.splits)
next
  case (Some m)
  with assms have "m = s" by (simp add: literal_get_def)
  with Some have "(ToString k, s) \<in> set (own_keys tbl)" by (simp add: map_of_SomeD)
  then show ?thesis by (force simp: own_keys_def)
qed

lemma own_keys_SMB: "own_keys SMB_ERROR_CODES =
     [(''3221225525'', ''Access Denied - Check your permissions for this file/folder''),
      (''3221225506'', ''File/Path Not Found''),
      (''3221225514'', ''Invalid Parameter''),
      (''3221225485'', ''Sharing Violation - File is in use by another process''),
      (''3221225524'', ''Object Name Invalid''),
      (''3221225534'', ''Not Enough Quota''),
      (''3221225581'', ''Logon Failure - Check your username, password, and domain''),
      (''3221226036'', ''Bad Network Name - The specified share does not exist on the server''),
      (''2147942402'', ''Network Name Not Found - Share does not exist''),
      (''2147942405'', ''Network Path Not Found''),
      (''5'', ''Access Denied''),
      (''32'', ''Sharing Violation''),
      (''53'', ''Network Path Not Found''),
      (''67'', ''Network Name Not Found''),
      (''87'', ''Invalid Parameter''),
      (''1314'', ''Network Error'')]"
  by (simp add: own_keys_def SMB_ERROR_CODES_def string_of_nat.simps digit_char_def)

lemma own_keys_eventMap: "own_keys eventMap =
     [(''1'', ''fileCreated''), (''2'', ''fileDeleted''), (''3'', ''fileUpdated''),
      (''4'', ''folderCreated''), (''5'', ''folderDeleted''), (''6'', ''folderUpdated'')]"
  by (simp add: own_keys_def eventMap_def string_of_nat.simps digit_char_def)

section \<open>The status table and readable errors\<close>

lemmas js_eval = errorCode_of_def js_or_def opt_chain_def literal_get_def
  string_of_int_def string_of_nat.simps digit_char_def Object_prototype_def

text \<open>
  C5 (amended). The program's table has exactly the sixteen codes of the specification's
  table. For 3221225506, 3221225514, 3221225524, 3221225534 and 2147942405 its message is the
  specification's meaning. For the five other codes the specification gives a meaning for,
  the message is that meaning followed by \<open> - \<close> and a hint: 3221225525
  \<open>Check your permissions for this file/folder\<close>, 3221225485
  \<open>File is in use by another process\<close>, 3221225581
  \<open>Check your username, password, and domain\<close>, 3221226036
  \<open>The specified share does not exist on the server\<close>, 2147942402
  \<open>Share does not exist\<close>; so every message begins with the specification's meaning.
  The codes 5, 32, 53, 67, 87 and 1314 map to Access Denied, Sharing Violation, Network Path
  Not Found, Network Name Not Found, Invalid Parameter and Network Error.
\<close>

theorem SMB_ERROR_CODES_against_spec:
  "(\<forall>(c, m) \<in> set spec_status_meanings.
       \<exists>s. map_of SMB_ERROR_CODES c = Some s \<and> prefix m s)
   \<and> map fst SMB_ERROR_CODES
       = map fst spec_status_meanings @ [5, 32, 53, 67, 87, 1314]
   \<and> map (map_of SMB_ERROR_CODES) [3221225506, 3221225514, 3221225524, 3221225534, 2147942405]
       = map (map_of spec_status_meanings)
           [3221225506, 3221225514, 3221225524, 3221225534, 2147942405]
   \<and> map (map_of SMB_ERROR_CODES) [3221225525, 3221225485, 3221225581, 3221226036, 2147942402]
       = map (\<lambda>(c, hint). map_option (\<lambda>m. m @ '' - '' @ hint) (map_of spec_status_meanings c))
           [(3221225525, ''Check your permissions for this file/folder''),
            (3221225485, ''File is in use by another process''),
            (3221225581, ''Check your username, password, and domain''),
            (3221226036, ''The specified share does not exist on the server''),
            (2147942402, ''Share does not exist'')]
   \<and> map (map_of SMB_ERROR_CODES) [5, 32, 53, 67, 87, 1314]
       = [Some ''Access Denied'', Some ''Sharing Violation'', Some ''Network Path Not Found'',
          Some ''Network Name Not Found'', Some ''Invalid Parameter'', Some ''Network Error'']"
  by (simp add: spec_status_meanings_def SMB_ERROR_CODES_def)

theorem SMB_ERROR_CODES_against_spec_witness:
  "(3221225525, ''Access Denied'') \<in> set spec_status_meanings
   \<and> (\<exists>s. map_of SMB_ERROR_CODES 3221225525 = Some s \<and> prefix ''Access Denied'' s)
   \<and> map_of SMB_ERROR_CODES 3221225581
       = Some ''Logon Failure - Check your username, password, and domain''"
  using SMB_ERROR_CODES_against_spec
  by (auto simp: spec_status_meanings_def)

theorem SMB_ERROR_CODES_verbatim_counterexample:
  "map_of spec_status_meanings 3221225525 = Some ''Access Denied''
   \<and> map_of SMB_ERROR_CODES 3221225525
       = Some ''Access Denied - Check your permissions for this file/folder''
   \<and> map_of SMB_ERROR_CODES 3221225525 \<noteq> map_of spec_status_meanings 3221225525"
  by (simp add: spec_status_meanings_def SMB_ERROR_CODES_def)

lemma table_messages_truthy: "map_of SMB_ERROR_CODES k = Some msg \<Longrightarrow> msg \<noteq> []"
  by (auto simp: SMB_ERROR_CODES_def split: if_splits)

lemma table_hit:
  assumes "map_of SMB_ERROR_CODES k = Some msg"
  shows "literal_get SMB_ERROR_CODES (JNum (int k)) = JStr msg" and "0 < k"
proof -
  show "literal_get SMB_ERROR_CODES (JNum (int k)) = JStr msg"
    using assms by (simp add: literal_get_JNum)
  show "0 < k"
    using assms by (cases "k = 0") (simp_all add: SMB_ERROR_CODES_def)
qed

lemma table_hit_string:
  assumes "map_of SMB_ERROR_CODES k = Some msg"
  shows "literal_get SMB_ERROR_CODES (JStr (string_of_nat k)) = JStr msg"
  using assms by (simp add: literal_get_def map_of_own_keys)

lemma literal_get_miss:
  assumes "ToString c \<notin> set (map fst (own_keys tbl))"
    and "ToString c \<notin> set (map fst Object_prototype)"
  shows "literal_get tbl c = JUndefined"
proof -
  from assms(1) have "map_of (own_keys tbl) (ToString c) = None"
    by (simp add: map_of_eq_None_iff)
  moreover from assms(2) have "map_of Object_prototype (ToString c) = None"
    by (simp add: map_of_eq_None_iff)
  ultimately show ?thesis by (simp add: literal_get_def)
qed

text \<open>
  C1 (amended). For a code \<open>k\<close> of the table, \<open>getReadableError\<close> applied to an error whose
  first truthy value among \<open>header.status\<close>, \<open>code\<close> and \<open>errno\<close> is \<open>k\<close>, as a number or
  as its decimal string, returns the table's message followed by \<open> (Code: k)\<close>. For an
  error whose code is absent from the table (it has no truthy such value, or the value is a
  number that is not in the table, or its text is neither a key of the table nor the name of
  a member of \<open>Object.prototype\<close>, as for every error code of Node such as ECONNREFUSED or
  ECONNRESET) it returns one of the three fixed transport messages when \<open>code\<close> is
  ECONNREFUSED, ETIMEDOUT or ENOTFOUND, else \<open>SMB server returned an error (Code: status)\<close>
  when the message is empty and \<open>header.status\<close> is set, else the raw message, or
  \<open>String(error)\<close> when the message is empty. For null, undefined and every other falsy
  input it returns \<open>Unknown error occurred\<close>; the result is a string whenever the message
  is a string or empty.
\<close>

theorem getReadableError_amended:
  "(\<not> truthy error \<longrightarrow> getReadableError error = JStr ''Unknown error occurred'')
   \<and> (truthy error
        \<and> (errorCode_of error = JNum (int k) \<or> errorCode_of error = JStr (string_of_nat k))
        \<and> map_of SMB_ERROR_CODES k = Some msg
        \<longrightarrow> getReadableError error = JStr (msg @ '' (Code: '' @ string_of_nat k @ '')''))
   \<and> (truthy error
        \<and> (\<not> truthy (errorCode_of error)
             \<or> errorCode_of error = JNum n \<and> (n < 0 \<or> map_of SMB_ERROR_CODES (nat n) = None)
             \<or> ToString (errorCode_of error) \<notin> set (map fst (own_keys SMB_ERROR_CODES))
                \<and> ToString (errorCode_of error) \<notin> set (map fst Object_prototype))
        \<longrightarrow> getReadableError error =
            (if get_prop error ''code'' = JStr ''ECONNREFUSED''
             then JStr ''Could not connect to SMB server - Connection refused''
             else if get_prop error ''code'' = JStr ''ETIMEDOUT''
             then JStr ''Connection to SMB server timed out''
             else if get_prop error ''code'' = JStr ''ENOTFOUND''
             then JStr ''SMB server not found - Check the server address''
             else if \<not> truthy (get_prop error ''message'')
                     \<and> truthy (opt_chain (get_prop error ''header'') ''status'')
             then JStr (''SMB server returned an error (Code: ''
                        @ ToString (opt_chain (get_prop error ''header'') ''status'') @ '')'')
             else if truthy (get_prop error ''message'') then get_prop error ''message''
             else JStr (ToString error)))
   \<and> ((\<not> truthy (get_prop error ''message'') \<or> (\<exists>m. get_prop error ''message'' = JStr m))
        \<longrightarrow> (\<exists>r. getReadableError error = JStr r))"
proof (intro conjI impI)
  assume "\<not> truthy error"
  then show "getReadableError error = JStr ''Unknown error occurred''"
    by (simp add: getReadableError_def)
next
  assume a: "truthy error
        \<and> (errorCode_of error = JNum (int k) \<or> errorCode_of error = JStr (string_of_nat k))
        \<and> map_of SMB_ERROR_CODES k = Some msg"
  then have e: "truthy error" and "0 < k" and m: "msg \<noteq> []"
    using table_hit(2)[of k msg] table_messages_truthy[of k msg] by simp_all
  from a consider (num) "errorCode_of error = JNum (int k)"
    | (str) "errorCode_of error = JStr (string_of_nat k)" by blast
  then show "getReadableError error = JStr (msg @ '' (Code: '' @ string_of_nat k @ '')'')"
  proof cases
    case num
    have hit: "literal_get SMB_ERROR_CODES (JNum (int k)) = JStr msg"
      using a table_hit(1)[of k msg] by simp
    show ?thesis
      unfolding getReadableError_def Let_def num hit
      using e \<open>0 < k\<close> m by (simp add: string_of_int_def)
  next
    case str
    have hit: "literal_get SMB_ERROR_CODES (JStr (string_of_nat k)) = JStr msg"
      using a table_hit_string[of k msg] by simp
    show ?thesis
      unfolding getReadableError_def Let_def str hit
      using e m by (simp add: string_of_nat_nonempty)
  qed
next
  let ?fallback =
    "if get_prop error ''code'' = JStr ''ECONNREFUSED''
     then JStr ''Could not connect to SMB server - Connection refused''
     else if get_prop error ''code'' = JStr ''ETIMEDOUT''
     then JStr ''Connection to SMB server timed out''
     else if get_prop error ''code'' = JStr ''ENOTFOUND''
     then JStr ''SMB server not found - Check the server address''
     else if \<not> truthy (get_prop error ''message'')
             \<and> truthy (opt_chain (get_prop error ''header'') ''status'')
     then JStr (''SMB server returned an error (Code: ''
                @ ToString (opt_chain (get_prop error ''header'') ''status'') @ '')'')
     else if truthy (get_prop error ''message'') then get_prop error ''message''
     else JStr (ToString error)"
  assume a: "truthy error
        \<and> (\<not> truthy (errorCode_of error)
             \<or> errorCode_of error = JNum n \<and> (n < 0 \<or> map_of SMB_ERROR_CODES (nat n) = None)
             \<or> ToString (errorCode_of error) \<notin> set (map fst (own_keys SMB_ERROR_CODES))
                \<and> ToString (errorCode_of error) \<notin> set (map fst Object_prototype))"
  then have e: "truthy error" by simp
  from a have c: "(truthy (errorCode_of error)
        \<and> truthy (literal_get SMB_ERROR_CODES (errorCode_of error))) = False"
    by (auto simp: literal_get_JNum literal_get_miss split: if_splits)
  show "getReadableError error = ?fallback"
    unfolding getReadableError_def Let_def c by (simp add: e js_or_def)
next
  assume "\<not> truthy (get_prop error ''message'') \<or> (\<exists>m. get_prop error ''message'' = JStr m)"
  then show "\<exists>r. getReadableError error = JStr r"
    by (auto simp: getReadableError_def Let_def js_or_def)
qed

lemma prototype_key_names:
  "map fst Object_prototype =
     [''constructor'', ''__defineGetter__'', ''__defineSetter__'', ''hasOwnProperty'',
      ''__lookupGetter__'', ''__lookupSetter__'', ''isPrototypeOf'', ''propertyIsEnumerable'',
      ''toString'', ''valueOf'', ''__proto__'', ''toLocaleString'']"
  by (simp add: Object_prototype_def)

theorem getReadableError_amended_witness:
  "getReadableError (JObj [(''header'', JObj [(''status'', JNum 3221225506)] ''[object Object]''),
                           (''message'', JStr ''STATUS_OBJECT_NAME_NOT_FOUND'')] ''Error'')
     = JStr ''File/Path Not Found (Code: 3221225506)''
   \<and> getReadableError (JObj [(''code'', JStr ''53'')] ''[object Object]'')
     = JStr ''Network Path Not Found (Code: 53)''
   \<and> getReadableError JNull = JStr ''Unknown error occurred''
   \<and> getReadableError (JObj [(''errno'', JNum 2), (''message'', JStr ''no such file'')] ''Error'')
     = JStr ''no such file''
   \<and> getReadableError (JObj [(''code'', JStr ''ECONNREFUSED''), (''errno'', JNum (- 111)),
                               (''message'', JStr ''connect ECONNREFUSED 10.0.0.1:445'')]
                          ''Error: connect ECONNREFUSED 10.0.0.1:445'')
     = JStr ''Could not connect to SMB server - Connection refused''
   \<and> getReadableError (JObj [(''code'', JStr ''ETIMEDOUT''), (''message'', JStr ''timed out'')]
                          ''Error: timed out'')
     = JStr ''Connection to SMB server timed out''
   \<and> getReadableError (JObj [(''code'', JStr ''ENOTFOUND''),
                               (''message'', JStr ''getaddrinfo ENOTFOUND nas'')]
                          ''Error: getaddrinfo ENOTFOUND nas'')
     = JStr ''SMB server not found - Check the server address''
   \<and> getReadableError (JObj [(''code'', JStr ''ECONNRESET''), (''message'', JStr ''read ECONNRESET'')]
                          ''Error: read ECONNRESET'')
     = JStr ''read ECONNRESET''"
proof -
  note w = getReadableError_amended
          [of "JObj [(''header'', JObj [(''status'', JNum 3221225506)] ''[object Object]''),
                     (''message'', JStr ''STATUS_OBJECT_NAME_NOT_FOUND'')] ''Error''"
              3221225506 "''File/Path Not Found''" 0]
        getReadableError_amended
          [of "JObj [(''code'', JStr ''53'')] ''[object Object]''" 53 "''Network Path Not Found''" 0]
        getReadableError_amended [of JNull 0 "[]" 0]
        getReadableError_amended
          [of "JObj [(''errno'', JNum 2), (''message'', JStr ''no such file'')] ''Error''" 0 "[]" 2]
        getReadableError_amended
          [of "JObj [(''code'', JStr ''ECONNREFUSED''), (''errno'', JNum (- 111)),
                     (''message'', JStr ''connect ECONNREFUSED 10.0.0.1:445'')]
                ''Error: connect ECONNREFUSED 10.0.0.1:445''" 0 "[]" 0]
        getReadableError_amended
          [of "JObj [(''code'', JStr ''ETIMEDOUT''), (''message'', JStr ''timed out'')]
                ''Error: timed out''" 0 "[]" 0]
        getReadableError_amended
          [of "JObj [(''code'', JStr ''ENOTFOUND''),
                     (''message'', JStr ''getaddrinfo ENOTFOUND nas'')]
                ''Error: getaddrinfo ENOTFOUND nas''" 0 "[]" 0]
        getReadableError_amended
          [of "JObj [(''code'', JStr ''ECONNRESET''), (''message'', JStr ''read ECONNRESET'')]
                ''Error: read ECONNRESET''" 0 "[]" 0]
  have t: "map_of SMB_ERROR_CODES 3221225506 = Some ''File/Path Not Found''"
    "map_of SMB_ERROR_CODES 53 = Some ''Network Path Not Found''"
    "map_of SMB_ERROR_CODES 2 = None"
    by (simp_all add: SMB_ERROR_CODES_def)
  show ?thesis
    using w t
    by (simp add: errorCode_of_def js_or_def opt_chain_def string_of_int_def
        string_of_nat.simps digit_char_def own_keys_SMB prototype_key_names)
qed

theorem getReadableError_counterexample:
  "map_of SMB_ERROR_CODES 5 = Some ''Access Denied''
   \<and> getReadableError (JObj [(''code'', JNum 5)] ''[object Object]'')
       = JStr ''Access Denied (Code: 5)''
   \<and> getReadableError (JObj [(''code'', JNum 5)] ''[object Object]'') \<noteq> JStr ''Access Denied''
   \<and> getReadableError (JObj [(''code'', JStr ''ECONNREFUSED''), (''errno'', JNum (- 111)),
                               (''message'', JStr ''connect ECONNREFUSED 10.0.0.1:445'')]
                          ''Error: connect ECONNREFUSED 10.0.0.1:445'')
       = JStr ''Could not connect to SMB server - Connection refused''
   \<and> getReadableError (JObj [(''message'', JNum 42)] ''[object Object]'') = JNum 42"
proof -
  have "map_of SMB_ERROR_CODES 5 = Some ''Access Denied''"
    by (simp add: SMB_ERROR_CODES_def)
  then show ?thesis
    by (simp add: getReadableError_def Let_def js_eval own_keys_SMB)
qed

section \<open>The watch callback\<close>

lemma eventMap_lookup:
  "literal_get eventMap (JNum n) =
     (if n = 1 then JStr ''fileCreated'' else if n = 2 then JStr ''fileDeleted''
      else if n = 3 then JStr ''fileUpdated'' else if n = 4 then JStr ''folderCreated''
      else if n = 5 then JStr ''folderDeleted'' else if n = 6 then JStr ''folderUpdated''
      else JUndefined)"
proof (cases "n < 0")
  case True
  then show ?thesis by (simp add: literal_get_JNum)
next
  case False
  then have "(nat n = k) = (n = int k)" for k by auto
  with False show ?thesis by (simp add: literal_get_JNum eventMap_def)
qed

lemma watch_callback_body:
  assumes "get_prop response ''body'' = body" "response \<noteq> JUndefined" "response \<noteq> JNull"
    "body \<noteq> JUndefined" "body \<noteq> JNull"
  shows "watch_callback event response emitted =
     Inr (if literal_get eventMap (get_prop body ''changeType'') = JStr event
          then emitted @ [body] else emitted)"
  using assms by (simp add: watch_callback_def member_def)

text \<open>
  C2 (amended). For every change notification, the callback maps the change-type codes 1 to 6
  to fileCreated, fileDeleted, fileUpdated, folderCreated, folderDeleted and folderUpdated,
  and every other number to no type at all (the lookup is undefined); it emits the
  notification's body if and only if the lookup yields the subscriber's selected event, and
  otherwise drops the notification without emitting.
\<close>

theorem watch_callback_filters:
  "literal_get eventMap (JNum n) =
     (if n = 1 then JStr ''fileCreated'' else if n = 2 then JStr ''fileDeleted''
      else if n = 3 then JStr ''fileUpdated'' else if n = 4 then JStr ''folderCreated''
      else if n = 5 then JStr ''folderDeleted'' else if n = 6 then JStr ''folderUpdated''
      else JUndefined)
   \<and> (response \<notin> {JUndefined, JNull} \<and> get_prop response ''body'' \<notin> {JUndefined, JNull}
        \<longrightarrow> watch_callback event response emitted =
            Inr (if literal_get eventMap (get_prop (get_prop response ''body'') ''changeType'')
                    = JStr event
                 then emitted @ [get_prop response ''body'']
                 else emitted))"
  using eventMap_lookup[of n] watch_callback_body[of response "get_prop response ''body''"]
  by simp

theorem watch_callback_filters_witness:
  "watch_callback ''fileUpdated''
     (JObj [(''body'', JObj [(''changeType'', JNum 3), (''filename'', JStr ''a.txt'')] ''[object Object]'')]
        ''[object Object]'') []
     = Inr [JObj [(''changeType'', JNum 3), (''filename'', JStr ''a.txt'')] ''[object Object]'']
   \<and> watch_callback ''fileCreated''
     (JObj [(''body'', JObj [(''changeType'', JNum 3), (''filename'', JStr ''a.txt'')] ''[object Object]'')]
        ''[object Object]'') []
     = Inr []"
  using watch_callback_filters
          [of 3 "JObj [(''body'', JObj [(''changeType'', JNum 3), (''filename'', JStr ''a.txt'')]
                                    ''[object Object]'')] ''[object Object]''"
              "''fileUpdated''" "[]"]
        watch_callback_filters
          [of 3 "JObj [(''body'', JObj [(''changeType'', JNum 3), (''filename'', JStr ''a.txt'')]
                                    ''[object Object]'')] ''[object Object]''"
              "''fileCreated''" "[]"]
  by simp

theorem watch_callback_unmapped_counterexample:
  "literal_get eventMap (JNum 7) = JUndefined
   \<and> literal_get eventMap (JNum 7)
       \<notin> JStr ` {''fileCreated'', ''fileDeleted'', ''fileUpdated'', ''folderCreated'',
                  ''folderDeleted'', ''folderUpdated''}
   \<and> watch_callback ''fileUpdated''
        (JObj [(''body'', JObj [(''changeType'', JNum 7)] ''[object Object]'')] ''[object Object]'') []
       = Inr []"
  by (simp add: eventMap_lookup watch_callback_body)

text \<open>
  C10. With the selected event \<open>watchFolderUpdated\<close>, one of the options the node offers, no
  response of the server ever makes the callback emit: no lookup in the change-type map
  yields that event, a single response leaves the list of emitted payloads as it was, and so
  does every sequence of responses.
\<close>

theorem watchFolderUpdated_never_emits:
  "''watchFolderUpdated'' \<in> set event_options
   \<and> literal_get eventMap changeType \<noteq> JStr ''watchFolderUpdated''
   \<and> emitted_after (watch_callback ''watchFolderUpdated'' response emitted) emitted = emitted
   \<and> deliver ''watchFolderUpdated'' responses emitted = emitted"
proof -
  have miss: "literal_get eventMap k \<noteq> JStr ''watchFolderUpdated''" for k
    using literal_get_JStr[of eventMap k "''watchFolderUpdated''"]
    by (auto simp: eventMap_def)
  then have one: "emitted_after (watch_callback ''watchFolderUpdated'' r em) em = em" for r em
    by (simp add: emitted_after_def watch_callback_def split: sum.split)
  have "deliver ''watchFolderUpdated'' responses emitted = emitted"
    by (induction responses) (simp_all add: one)
  with miss one show ?thesis
    by (simp add: event_options_def)
qed

section \<open>Formatted entries\<close>

text \<open>
  C8. The \<open>type\<close> field of a formatted entry is \<open>d\<close> when the entry's type is
  \<open>Directory\<close> and \<open>l\<close> for every other type, a regular file included; it is never
  \<open>f\<close>. The list operation returns exactly the formatted entries of the listing.
\<close>

theorem formatEntry_type:
  "FormattedEntry.type (formatEntry np entry p)
     = (if DirectoryEntry.type entry = ''Directory'' then ''d'' else ''l'')
   \<and> FormattedEntry.type (formatEntry np entry p) \<noteq> ''f''
   \<and> (respond w (calls s) (ReadDirectory (p_path c i)) = Inr r
        \<longrightarrow> fst (list_item w c i returnItems s)
            = Inr (returnItems
                   @ map (\<lambda>entry. Entry (formatEntry (node_path w) entry (p_path c i)))
                       (listing w (calls s) (p_path c i))))"
  by (simp add: formatEntry_def list_item_def perform_def)

theorem formatEntry_type_witness:
  "(case fst (list_item quiet_world no_params 0 [] \<lparr>calls = [], logs = []\<rparr>) of
      Inl e \<Rightarrow> []
    | Inr out \<Rightarrow> map (\<lambda>x. case x of Entry f \<Rightarrow> (FormattedEntry.type f, FormattedEntry.path f)
                                   | Item y \<Rightarrow> ([], [])) out)
   = [(''l'', ''docs/a.txt''), (''d'', ''docs/sub'')]"
  using formatEntry_type
          [of plain_path "hd two_entries" "''docs''" quiet_world "\<lparr>calls = [], logs = []\<rparr>"
              no_params 0 JUndefined "[]"]
  by (simp add: quiet_world_def no_params_def two_entries_def plain_path_def formatEntry_def)

section \<open>The access mask of a rename\<close>

lemma renameFile_calls:
  "snd (renameFile A w src dst) =
     [RegisterFile, Open src (desiredAccess A)]
     @ (case w [RegisterFile] (Open src (desiredAccess A)) of
          Some e \<Rightarrow> []
        | None \<Rightarrow>
            Rename dst
            # (case w [RegisterFile, Open src (desiredAccess A)] (Rename dst) of
                 Some e \<Rightarrow> []
               | None \<Rightarrow> [Close]))"
  by (simp add: renameFile_def Let_def split: option.split)

lemma protocol_mask: "desiredAccess protocol_access = 0x130180"
  by (simp add: desiredAccess_def protocol_access_def)

lemma protocol_bits:
  "filter (bit (desiredAccess protocol_access)) [0..<32] = [7, 8, 16, 17, 20]"
  unfolding protocol_mask
  by (simp add: upt_rec)


lemma protocol_rights:
  "map (\<lambda>r. filter (bit r) [0..<32])
     [ReadAttributes protocol_access, WriteAttributes protocol_access, Delete protocol_access,
      ReadControl protocol_access, Synchronize protocol_access]
   = [[7], [8], [16], [17], [20]]"
  by (simp add: protocol_access_def upt_rec)

text \<open>
  C4 (amended). \<open>renameFile\<close> opens the source path with a desired-access mask of exactly
  five rights, delete, write-attributes, read-attributes, read-control and synchronize (under
  the protocol's values the bits 16, 8, 7, 17 and 20, each right one bit); the open having
  succeeded it issues the rename request naming the destination, and the rename having
  succeeded it closes the handle.
\<close>

theorem renameFile_five_rights:
  "snd (renameFile A w src dst) =
     [RegisterFile,
      Open src (Delete A OR WriteAttributes A OR ReadAttributes A OR ReadControl A
                OR Synchronize A)]
     @ (case w [RegisterFile] (Open src (desiredAccess A)) of
          Some e \<Rightarrow> []
        | None \<Rightarrow>
            Rename dst
            # (case w [RegisterFile, Open src (desiredAccess A)] (Rename dst) of
                 Some e \<Rightarrow> []
               | None \<Rightarrow> [Close]))
   \<and> filter (bit (desiredAccess protocol_access)) [0..<32] = [7, 8, 16, 17, 20]
   \<and> map (\<lambda>r. filter (bit r) [0..<32])
        [ReadAttributes protocol_access, WriteAttributes protocol_access,
         Delete protocol_access, ReadControl protocol_access, Synchronize protocol_access]
      = [[7], [8], [16], [17], [20]]"
  using renameFile_calls[of A w src dst] protocol_bits protocol_rights
  by (simp add: desiredAccess_def)

theorem renameFile_four_rights_counterexample:
  "snd (renameFile protocol_access (\<lambda>h c. None) ''a.txt'' ''b.txt'')
     = [RegisterFile, Open ''a.txt'' 0x130180, Rename ''b.txt'', Close]
   \<and> Delete protocol_access OR WriteAttributes protocol_access OR ReadAttributes protocol_access
       OR ReadControl protocol_access = 0x30180
   \<and> (0x130180 :: 32 word) \<noteq> 0x30180
   \<and> Synchronize protocol_access = 0x100000
   \<and> (0x130180 :: 32 word) AND 0x100000 = 0x100000"
  by (simp add: renameFile_calls protocol_mask) (simp add: protocol_access_def)

section \<open>Uploads\<close>

lemma perform_calls [simp]: "calls (snd (perform w k s)) = calls s @ [k]"
  by (simp add: perform_def)

lemma perform_fst [simp]: "fst (perform w k s) = respond w (calls s) k"
  by (simp add: perform_def)

lemma perform_eq: "perform w k s = (respond w (calls s) k, s\<lparr>calls := calls s @ [k]\<rparr>)"
  by (simp add: perform_def)

lemma debug_calls [simp]: "calls (debug l v s) = calls s"
  by (simp add: debug_def)

lemma getReadableError_logged_calls [simp]:
  "calls (snd (getReadableError_logged e s)) = calls s"
  by (simp add: getReadableError_logged_def)

lemma item_catch_calls [simp]:
  "calls (snd (item_catch l what c i item e returnItems s)) = calls s"
  by (simp add: item_catch_def Let_def split_beta)


lemma upload_create_calls:
  "calls (snd (upload_create w c i item content returnItems s))
     = calls s @ [CreateFile (p_path c i) content]"
  by (simp add: upload_create_def perform_eq split: sum.split)

lemma upload_content_calls:
  assumes "p_options c i \<notin> {JUndefined, JNull}"
  shows "calls (snd (upload_content w c i item content returnItems s))
     = calls s @ overwrite_sequence w (calls s) (p_path c i) content
                   (get_prop (p_options c i) ''replace'')"
  using assms
  by (simp add: upload_content_def overwrite_sequence_def member_def Let_def perform_eq
      upload_create_calls split: sum.split)


lemma overwrite_sequence_full:
  "respond w h (Exists p) = Inr ex \<Longrightarrow> respond w (h @ [Exists p]) (RemoveFile p) = Inr r \<Longrightarrow>
   overwrite_sequence w h p content (JBool True)
     = Exists p # (if truthy ex then [RemoveFile p] else []) @ [CreateFile p content]"
  by (simp add: overwrite_sequence_def)

text \<open>
  C3 (amended). For every upload whose content is there (a non-empty text, or a binary buffer
  that was found) and whose overwrite option is true, the operation calls \<open>exists(path)\<close>,
  then \<open>removeFile(path)\<close> only when \<open>exists\<close> returned true, then
  \<open>createFile(path, content)\<close>, as three separate calls in that order, each made only
  when the one before it did not fail; with the option false or unset the only call on the
  share is \<open>createFile(path, content)\<close>.
\<close>

theorem upload_overwrite_sequence:
  "(p_options c i \<notin> {JUndefined, JNull} \<and> \<not> p_binaryData c i \<and> p_fileContent c i \<noteq> []
      \<longrightarrow> calls (snd (upload_item w c i item returnItems s))
          = calls s @ overwrite_sequence w (calls s) (p_path c i) (JStr (p_fileContent c i))
                        (get_prop (p_options c i) ''replace''))
   \<and> (p_options c i \<notin> {JUndefined, JNull} \<and> p_binaryData c i
        \<and> respond w (calls s) (GetBinaryDataBuffer i (p_binaryPropertyName c i)) = Inr buffer
        \<and> truthy buffer
      \<longrightarrow> calls (snd (upload_item w c i item returnItems s))
          = calls s @ GetBinaryDataBuffer i (p_binaryPropertyName c i)
              # overwrite_sequence w (calls s @ [GetBinaryDataBuffer i (p_binaryPropertyName c i)])
                  (p_path c i) buffer (get_prop (p_options c i) ''replace''))
   \<and> (respond w h (Exists p) = Inr ex \<and> respond w (h @ [Exists p]) (RemoveFile p) = Inr r
      \<longrightarrow> overwrite_sequence w h p content (JBool True)
          = Exists p # (if truthy ex then [RemoveFile p] else []) @ [CreateFile p content])
   \<and> (replace \<noteq> JBool True
      \<longrightarrow> overwrite_sequence w h p content replace = [CreateFile p content])"
proof (intro conjI impI)
  assume a: "p_options c i \<notin> {JUndefined, JNull} \<and> \<not> p_binaryData c i \<and> p_fileContent c i \<noteq> []"
  then have "upload_item w c i item returnItems s
      = upload_content w c i item (JStr (p_fileContent c i)) returnItems s"
    by (simp add: upload_item_def)
  with a show "calls (snd (upload_item w c i item returnItems s))
          = calls s @ overwrite_sequence w (calls s) (p_path c i) (JStr (p_fileContent c i))
                        (get_prop (p_options c i) ''replace'')"
    by (simp add: upload_content_calls)
next
  let ?get = "GetBinaryDataBuffer i (p_binaryPropertyName c i)"
  assume a: "p_options c i \<notin> {JUndefined, JNull} \<and> p_binaryData c i
        \<and> respond w (calls s) ?get = Inr buffer \<and> truthy buffer"
  then have "upload_item w c i item returnItems s
      = upload_content w c i item buffer returnItems (s\<lparr>calls := calls s @ [?get]\<rparr>)"
    by (simp add: upload_item_def perform_eq)
  with a show "calls (snd (upload_item w c i item returnItems s))
          = calls s @ ?get # overwrite_sequence w (calls s @ [?get]) (p_path c i) buffer
                               (get_prop (p_options c i) ''replace'')"
    by (simp add: upload_content_calls)
next
  assume "respond w h (Exists p) = Inr ex \<and> respond w (h @ [Exists p]) (RemoveFile p) = Inr r"
  then show "overwrite_sequence w h p content (JBool True)
          = Exists p # (if truthy ex then [RemoveFile p] else []) @ [CreateFile p content]"
    by (simp add: overwrite_sequence_full)
next
  assume "replace \<noteq> JBool True"
  then show "overwrite_sequence w h p content replace = [CreateFile p content]"
    by (simp add: overwrite_sequence_def)
qed

theorem upload_overwrite_sequence_witness:
  "calls (snd (upload_item existing_world
                 (upload_params ''hello'' (JObj [(''replace'', JBool True)] ''[object Object]'') False)
                 0 item0 [] \<lparr>calls = [], logs = []\<rparr>))
     = [Exists ''docs/a.txt'', RemoveFile ''docs/a.txt'', CreateFile ''docs/a.txt'' (JStr ''hello'')]
   \<and> calls (snd (upload_item existing_world
                 (upload_params ''hello'' (JObj [] ''[object Object]'') False)
                 0 item0 [] \<lparr>calls = [], logs = []\<rparr>))
     = [CreateFile ''docs/a.txt'' (JStr ''hello'')]
   \<and> calls (snd (upload_item existing_world
                 (binary_upload_params (JObj [(''replace'', JBool True)] ''[object Object]''))
                 0 item0 [] \<lparr>calls = [], logs = []\<rparr>))
     = [GetBinaryDataBuffer 0 ''data'', Exists ''docs/a.txt'', RemoveFile ''docs/a.txt'',
        CreateFile ''docs/a.txt'' five_bytes]"
  using upload_overwrite_sequence
          [of "upload_params ''hello'' (JObj [(''replace'', JBool True)] ''[object Object]'') False"
              0 existing_world item0 "[]" "\<lparr>calls = [], logs = []\<rparr>" JUndefined
              "[]" "''docs/a.txt''" "JBool True" JUndefined "JStr ''hello''" JUndefined]
        upload_overwrite_sequence
          [of "upload_params ''hello'' (JObj [] ''[object Object]'') False"
              0 existing_world item0 "[]" "\<lparr>calls = [], logs = []\<rparr>" JUndefined
              "[]" "''docs/a.txt''" "JBool True" JUndefined "JStr ''hello''" JUndefined]
        upload_overwrite_sequence
          [of "binary_upload_params (JObj [(''replace'', JBool True)] ''[object Object]'')"
              0 existing_world item0 "[]" "\<lparr>calls = [], logs = []\<rparr>" five_bytes
              "[GetBinaryDataBuffer 0 ''data'']" "''docs/a.txt''" "JBool True" JUndefined
              five_bytes JUndefined]
  by (simp add: binary_upload_params_def upload_params_def no_params_def existing_world_def
      quiet_world_def five_bytes_def)

theorem upload_overwrite_counterexample:
  "calls (snd (upload_item existing_world
                 (upload_params [] (JObj [(''replace'', JBool True)] ''[object Object]'') False)
                 0 item0 [] \<lparr>calls = [], logs = []\<rparr>)) = []
   \<and> calls (snd (upload_item existing_world
                 (upload_params [] (JObj [] ''[object Object]'') False)
                 0 item0 [] \<lparr>calls = [], logs = []\<rparr>)) = []"
  by (simp add: upload_item_def upload_params_def no_params_def)







lemmas exec_eval = execute_def connect_def perform_eq loop_body_def list_item_def
  download_item_def download_finally_def upload_item_def upload_content_def upload_create_def
  delete_item_def rename_item_def item_catch_def getReadableError_logged_def debug_def
  outer_catch_def member_def set_error_def Let_def split_beta




section \<open>Failures and cleanup\<close>

lemma item_catch_continues:
  "continueOnFail c \<Longrightarrow> \<exists>x. fst (item_catch l what c i item e returnItems s) = Inr (returnItems @ [x])"
  by (simp add: item_catch_def Let_def split_beta)

lemma download_finally_fst [simp]: "fst (download_finally w f p) = fst p"
  by (simp add: download_finally_def split: sum.split prod.split)

lemma download_item_continues:
  assumes "continueOnFail c"
  shows "\<exists>x. fst (download_item w c i item returnItems s) = Inr (returnItems @ [x])"
  using item_catch_continues[OF assms]
  by (simp add: download_item_def Let_def split: sum.split prod.split)

lemma upload_create_continues:
  assumes "continueOnFail c"
  shows "\<exists>x. fst (upload_create w c i item content returnItems s) = Inr (returnItems @ [x])"
  using item_catch_continues[OF assms]
  by (simp add: upload_create_def split: sum.split prod.split)

lemma upload_content_continues:
  assumes "continueOnFail c"
  shows "\<exists>x. fst (upload_content w c i item content returnItems s) = Inr (returnItems @ [x])"
  using item_catch_continues[OF assms] upload_create_continues[OF assms]
  by (simp add: upload_content_def Let_def split: sum.split prod.split)

lemma upload_item_continues:
  assumes "continueOnFail c"
  shows "\<exists>x. fst (upload_item w c i item returnItems s) = Inr (returnItems @ [x])"
  using item_catch_continues[OF assms] upload_content_continues[OF assms] assms
  by (simp add: upload_item_def Let_def split: sum.split prod.split)

lemma delete_item_continues:
  assumes "continueOnFail c"
  shows "\<exists>x. fst (delete_item w c i item returnItems s) = Inr (returnItems @ [x])"
  using item_catch_continues[OF assms]
  by (simp add: delete_item_def Let_def split: sum.split prod.split)

lemma rename_item_continues:
  assumes "continueOnFail c"
  shows "\<exists>x. fst (rename_item w c i item returnItems s) = Inr (returnItems @ [x])"
  using item_catch_continues[OF assms]
  by (simp add: rename_item_def split: sum.split prod.split)

lemma loop_body_continues:
  assumes "continueOnFail c" "operation c \<in> {''download'', ''upload'', ''delete'', ''rename''}"
  shows "\<exists>x. fst (loop_body w c i item returnItems s) = Inr (returnItems @ [x])"
  using assms download_item_continues[OF assms(1)] upload_item_continues[OF assms(1)]
    delete_item_continues[OF assms(1)] rename_item_continues[OF assms(1)]
  by (auto simp: loop_body_def)

text \<open>
  Under continue-on-fail the four operations other than list never leave the loop: whatever
  the server answers, every input item yields one output item.
\<close>

lemma loop_continues:
  assumes "continueOnFail c" "operation c \<in> {''download'', ''upload'', ''delete'', ''rename''}"
  shows "\<exists>out. fst (loop w c i its returnItems s) = Inr out
               \<and> length out = length returnItems + length its"
proof (induction its arbitrary: i returnItems s)
  case Nil
  show ?case by simp
next
  case (Cons item rest)
  obtain x where "fst (loop_body w c i item returnItems s) = Inr (returnItems @ [x])"
    using loop_body_continues[OF assms] by blast
  then obtain s' where step: "loop_body w c i item returnItems s = (Inr (returnItems @ [x]), s')"
    by (cases "loop_body w c i item returnItems s") simp
  from Cons.IH[of "Suc i" "returnItems @ [x]" s'] step show ?case by simp
qed

lemmas world_eval = denying_world_def stuck_tmp_world_def quiet_world_def batch_params_def
  no_params_def access_denied_def connection_reset_def disk_full_def busy_def tmp_file_def

lemmas readable_eval = getReadableError_def errorCode_of_def js_or_def opt_chain_def
  literal_get_def own_keys_SMB string_of_int_def string_of_nat.simps digit_char_def
  Object_prototype_def

lemma readable_access_denied:
  "getReadableError access_denied
     = JStr ''Access Denied - Check your permissions for this file/folder (Code: 3221225525)''"
  by (simp add: access_denied_def readable_eval Let_def)

lemma readable_disk_full: "getReadableError disk_full = JStr ''no space left on device''"
  by (simp add: disk_full_def readable_eval Let_def)

text \<open>
  C6. The list operation has no catch block of its own. With continue-on-fail enabled and
  two input items, a \<open>readDirectory\<close> that fails on the first item ends the execution
  with the server's raw error: the item is not annotated and the second item is never
  processed. On the same server the delete operation annotates both items and returns them.
\<close>

theorem list_failure_aborts_batch:
  "execute (denying_world (Inr JUndefined)) (batch_params ''list'' True)
     = (Inl access_denied,
        \<lparr>calls = [Authenticate ''WORKGROUP'' ''u'' ''p'', ConnectTree ''public'',
                  ReadDirectory ''docs'', ClientClose],
         logs = []\<rparr>)
   \<and> fst (execute (denying_world (Inr JUndefined)) (batch_params ''delete'' True))
     = Inr [Item (set_error item0
                    ''Failed to delete file: Access Denied - Check your permissions for this file/folder (Code: 3221225525)''),
            Item (set_error item1
                    ''Failed to delete file: Access Denied - Check your permissions for this file/folder (Code: 3221225525)'')]"
proof -
  have r: "getReadableError
     (JObj [(''header'', JObj [(''status'', JNum 3221225525)] ''[object Object]''),
            (''message'', JStr ''STATUS_ACCESS_DENIED'')] ''Error: STATUS_ACCESS_DENIED'')
     = JStr ''Access Denied - Check your permissions for this file/folder (Code: 3221225525)''"
    using readable_access_denied by (simp add: access_denied_def)
  show ?thesis
    by (simp add: exec_eval world_eval r)
qed

text \<open>
  C7. When \<open>client.close()\<close> itself fails in the outer catch block, its error is what
  \<open>execute\<close> throws: the primary error (here the failed delete of item 0) is lost and the
  close failure is not logged. The temporary file of a download is handled as the claim
  says: its failing \<open>cleanup\<close> is logged and the download's error is the one thrown.
\<close>

theorem close_failure_replaces_error:
  "fst (execute (denying_world (Inr JUndefined)) (batch_params ''delete'' False))
     = Inl (NodeOperationError
              ''Failed to delete file: Access Denied - Check your permissions for this file/folder (Code: 3221225525)''
              (Some ''Check your SMB connection settings and file permissions'') (Some 0))
   \<and> execute (denying_world (Inl connection_reset)) (batch_params ''delete'' False)
     = (Inl connection_reset,
        \<lparr>calls = [Authenticate ''WORKGROUP'' ''u'' ''p'', ConnectTree ''public'',
                  RemoveFile ''docs'', ClientClose],
         logs = [(''Delete error:'', access_denied), ([], access_denied)]\<rparr>)
   \<and> execute stuck_tmp_world (batch_params ''download'' False)
     = (Inl (NodeOperationError ''Failed to download file: no space left on device''
               (Some ''Check your SMB connection settings and file permissions'') (Some 0)),
        \<lparr>calls = [Authenticate ''WORKGROUP'' ''u'' ''p'', ConnectTree ''public'', TmpFile,
                  CreateFileReadStream ''docs'', Pipeline JUndefined (JStr ''/tmp/n8n-smb2-1''),
                  Cleanup, ClientClose],
         logs = [(''Download error:'', disk_full), ([], disk_full),
                 (''Error during cleanup:'', busy)]\<rparr>)"
proof -
  have r: "getReadableError
     (JObj [(''header'', JObj [(''status'', JNum 3221225525)] ''[object Object]''),
            (''message'', JStr ''STATUS_ACCESS_DENIED'')] ''Error: STATUS_ACCESS_DENIED'')
     = JStr ''Access Denied - Check your permissions for this file/folder (Code: 3221225525)''"
    using readable_access_denied by (simp add: access_denied_def)
  have d: "getReadableError
     (JObj [(''code'', JStr ''ENOSPC''), (''message'', JStr ''no space left on device'')]
        ''Error: no space left on device'')
     = JStr ''no space left on device''"
    using readable_disk_full by (simp add: disk_full_def)
  show ?thesis
    by (simp add: exec_eval world_eval opt_chain_def r d)
qed

end
